theory Spec2Isabelle
  imports Complex_Main "HOL-Library.Sublist"
begin

section \<open>The chat proxy handler of \<^verbatim>\<open>src/app/api/route.js\<close>\<close>

text \<open>
  The repository is one request handler, \<^verbatim>\<open>POST\<close>: it reads the credential from the
  process environment, parses the request body, reads its \<^verbatim>\<open>prompt\<close>, calls the
  generative-text service and maps every exception of that block to a status and a
  message. The embedding follows the handler line by line. What the handler cannot
  decide itself is a parameter: the outcome of \<^verbatim>\<open>request.json()\<close>, the generative-text
  service, and the message texts the JavaScript engine puts into its own TypeErrors.
  Console output is not part of the response and is not modelled, except where
  building the logged text can throw.
\<close>

subsection \<open>JavaScript values\<close>

text \<open>
  A string is a list of code units below 256 (Latin-1). A number is the value of the
  double that \<^verbatim>\<open>JSON.parse\<close> produced: finite (both zeros are \<open>Finite 0\<close>) or an
  infinity (from an overflowing literal), with the flag set for the negative one.
\<close>

datatype js_number = Finite rat | Infinite bool

text \<open>
  A parsed JSON value. An object is the list of its own properties; \<open>map_of\<close> reads one.
\<close>

datatype json =
    JNull
  | JBool bool
  | JNumber js_number
  | JString string
  | JArray "json list"
  | JObject "(string \<times> json) list"

text \<open>
  A caught exception is an Error instance: whether it is an instance of SyntaxError, and
  its \<^verbatim>\<open>message\<close>, which is the empty string for an exception constructed without one.
\<close>

record js_error =
  instanceof_SyntaxError :: bool
  message :: string

definition TypeError :: "string \<Rightarrow> js_error" where
  "TypeError m = \<lparr>instanceof_SyntaxError = False, message = m\<rparr>"

definition SyntaxError :: "string \<Rightarrow> js_error" where
  "SyntaxError m = \<lparr>instanceof_SyntaxError = True, message = m\<rparr>"

text \<open>The message texts of the two TypeErrors the engine itself can raise in the handler.\<close>

record engine =
  null_property_message :: string
  to_primitive_message :: string

text \<open>\<^verbatim>\<open>!v\<close> is \<open>\<not> ToBoolean v\<close>; \<open>None\<close> stands for \<^verbatim>\<open>undefined\<close>.\<close>

fun ToBoolean :: "json \<Rightarrow> bool" where
  "ToBoolean JNull = False"
| "ToBoolean (JBool b) = b"
| "ToBoolean (JNumber n) = (n \<noteq> Finite 0)"
| "ToBoolean (JString s) = (s \<noteq> [])"
| "ToBoolean (JArray xs) = True"
| "ToBoolean (JObject kvs) = True"

fun truthy :: "json option \<Rightarrow> bool" where
  "truthy None = False"
| "truthy (Some v) = ToBoolean v"

text \<open>
  \<^verbatim>\<open>reqBody.prompt\<close>: reading a property of \<^verbatim>\<open>null\<close> throws a TypeError; a primitive or
  an array has no such property; an object gives its own property or \<^verbatim>\<open>undefined\<close>.
\<close>

fun get_prompt :: "engine \<Rightarrow> json \<Rightarrow> js_error + json option" where
  "get_prompt eng JNull = Inl (TypeError (null_property_message eng))"
| "get_prompt eng (JObject kvs) = Inr (map_of kvs ''prompt'')"
| "get_prompt eng (JBool b) = Inr None"
| "get_prompt eng (JNumber n) = Inr None"
| "get_prompt eng (JString s) = Inr None"
| "get_prompt eng (JArray xs) = Inr None"

text \<open>
  The template literal of line 27 converts the prompt to a string. For a parsed object
  that has an own property \<^verbatim>\<open>toString\<close> (never callable in parsed JSON) the conversion
  throws a TypeError; an array converts its elements, skipping \<^verbatim>\<open>null\<close>.
\<close>

fun ToString_throws :: "json \<Rightarrow> bool" where
  "ToString_throws (JArray xs) = (\<exists>x \<in> set xs. ToString_throws x)"
| "ToString_throws (JObject kvs) = (map_of kvs ''toString'' \<noteq> None)"
| "ToString_throws JNull = False"
| "ToString_throws (JBool b) = False"
| "ToString_throws (JNumber n) = False"
| "ToString_throws (JString s) = False"

subsection \<open>String operations\<close>

definition uppercase_letters :: string where
  "uppercase_letters = ''ABCDEFGHIJKLMNOPQRSTUVWXYZ'' @
     [CHR 0xC0, CHR 0xC1, CHR 0xC2, CHR 0xC3, CHR 0xC4, CHR 0xC5, CHR 0xC6, CHR 0xC7,
      CHR 0xC8, CHR 0xC9, CHR 0xCA, CHR 0xCB, CHR 0xCC, CHR 0xCD, CHR 0xCE, CHR 0xCF,
      CHR 0xD0, CHR 0xD1, CHR 0xD2, CHR 0xD3, CHR 0xD4, CHR 0xD5, CHR 0xD6,
      CHR 0xD8, CHR 0xD9, CHR 0xDA, CHR 0xDB, CHR 0xDC, CHR 0xDD, CHR 0xDE]"

definition lowercase_letters :: string where
  "lowercase_letters = ''abcdefghijklmnopqrstuvwxyz'' @
     [CHR 0xE0, CHR 0xE1, CHR 0xE2, CHR 0xE3, CHR 0xE4, CHR 0xE5, CHR 0xE6, CHR 0xE7,
      CHR 0xE8, CHR 0xE9, CHR 0xEA, CHR 0xEB, CHR 0xEC, CHR 0xED, CHR 0xEE, CHR 0xEF,
      CHR 0xF0, CHR 0xF1, CHR 0xF2, CHR 0xF3, CHR 0xF4, CHR 0xF5, CHR 0xF6,
      CHR 0xF8, CHR 0xF9, CHR 0xFA, CHR 0xFB, CHR 0xFC, CHR 0xFD, CHR 0xFE]"

text \<open>\<^verbatim>\<open>String.prototype.toLowerCase\<close> on code units below 256.\<close>

definition toLowerCase_char :: "char \<Rightarrow> char" where
  "toLowerCase_char c =
     (case map_of (zip uppercase_letters lowercase_letters) c of
        Some d \<Rightarrow> d
      | None \<Rightarrow> c)"

definition toLowerCase :: "string \<Rightarrow> string" where
  "toLowerCase s = map toLowerCase_char s"

text \<open>\<^verbatim>\<open>text.startsWith(s)\<close> and \<^verbatim>\<open>text.includes(s)\<close>, the text first.\<close>

fun startsWith :: "string \<Rightarrow> string \<Rightarrow> bool" where
  "startsWith cs [] = True"
| "startsWith [] (d # ds) = False"
| "startsWith (c # cs) (d # ds) = (c = d \<and> startsWith cs ds)"

fun str_includes :: "string \<Rightarrow> string \<Rightarrow> bool" where
  "str_includes [] s = (s = [])"
| "str_includes (c # cs) s = (startsWith (c # cs) s \<or> str_includes cs s)"

subsection \<open>Responses and the generative-text service\<close>

text \<open>
  \<^verbatim>\<open>NextResponse.json(obj, { status })\<close>: the status (200 when none is given) and the
  fields of the JSON body in order.
\<close>

record http_response =
  status :: nat
  body :: "(string \<times> string) list"

text \<open>
  Lines 30 to 37 as one opaque call: given the credential, the model name and the
  prompt, the service returns the generated text or throws.
\<close>

type_synonym generative_service = "string \<Rightarrow> string \<Rightarrow> json \<Rightarrow> js_error + string"

record upstream_call =
  api_key :: string
  model_name :: string
  contents :: json

text \<open>What a run of the handler leaves: the response and the calls made to the service.\<close>

record handled =
  sent :: http_response
  upstream_calls :: "upstream_call list"

subsection \<open>The handler\<close>

text \<open>The \<^verbatim>\<open>catch\<close> block, lines 44 to 75.\<close>

definition catch_block :: "js_error \<Rightarrow> http_response" where
  "catch_block err =
     (let errorMessage = (if message err \<noteq> [] then message err
                          else ''Failed to get response from AI.'');
          (errorMessage, errorStatus) =
            (if message err \<noteq> [] \<and>
                str_includes (toLowerCase (message err)) ''api key not valid''
             then (''Gemini API Key is not valid. Please check your .env.local file and ensure it's correct.'', 401)
             else if message err \<noteq> [] \<and>
                str_includes (toLowerCase (message err)) ''quota''
             then (''API quota exceeded. Please check your Google Cloud console.'', 429)
             else if message err \<noteq> [] \<and>
                str_includes (toLowerCase (message err)) ''model not found''
             then (''The specified AI model was not found. Check the model name.'', 404)
             else if instanceof_SyntaxError err \<and> str_includes (message err) ''JSON''
             then (''Invalid JSON in request body.'', 400)
             else (errorMessage, 500))
      in \<lparr>status = errorStatus,
          body = [(''error'', errorMessage),
                  (''details'', ''See server logs for more information.'')]\<rparr>)"

text \<open>The two responses returned before any exception handling, lines 12 and 24.\<close>

definition not_configured_response :: http_response where
  "not_configured_response =
     \<lparr>status = 500, body = [(''error'', ''AI service not configured. API Key missing.'')]\<rparr>"

definition no_prompt_response :: http_response where
  "no_prompt_response =
     \<lparr>status = 400, body = [(''error'', ''No prompt provided in request body.'')]\<rparr>"

text \<open>
  The \<^verbatim>\<open>try\<close> block, lines 15 to 43: \<open>Inl\<close> is the exception it throws, \<open>Inr\<close> the
  response it returns; the second component lists the calls made to the service.
\<close>

definition try_block ::
  "engine \<Rightarrow> generative_service \<Rightarrow> string \<Rightarrow> js_error + json \<Rightarrow>
     (js_error + http_response) \<times> upstream_call list" where
  "try_block eng svc GEMINI_API_KEY request_json =
     (case request_json of
        Inl err \<Rightarrow> (Inl err, [])
      | Inr reqBody \<Rightarrow>
          (case get_prompt eng reqBody of
             Inl err \<Rightarrow> (Inl err, [])
           | Inr userPrompt \<Rightarrow>
               (case userPrompt of
                  None \<Rightarrow> (Inr no_prompt_response, [])
                | Some p \<Rightarrow>
                    if \<not> ToBoolean p then (Inr no_prompt_response, [])
                    else if ToString_throws p then
                      (Inl (TypeError (to_primitive_message eng)), [])
                    else
                      (let call = \<lparr>api_key = GEMINI_API_KEY, model_name = ''gemini-pro'',
                                   contents = p\<rparr>
                       in case svc GEMINI_API_KEY ''gemini-pro'' p of
                            Inl err \<Rightarrow> (Inl err, [call])
                          | Inr text \<Rightarrow>
                              (Inr \<lparr>status = 200, body = [(''reply'', text)]\<rparr>, [call])))))"

text \<open>
  The handler. The credential is \<^verbatim>\<open>process.env.GEMINI_API_KEY\<close>: \<open>None\<close> when the
  variable is unset; an empty value is falsy as well.
\<close>

definition POST ::
  "engine \<Rightarrow> generative_service \<Rightarrow> string option \<Rightarrow> js_error + json \<Rightarrow> handled" where
  "POST eng svc GEMINI_API_KEY request_json =
     (case GEMINI_API_KEY of
        None \<Rightarrow> \<lparr>sent = not_configured_response, upstream_calls = []\<rparr>
      | Some k \<Rightarrow>
          if k = [] then \<lparr>sent = not_configured_response, upstream_calls = []\<rparr>
          else
            (case try_block eng svc k request_json of
               (Inr response, calls) \<Rightarrow> \<lparr>sent = response, upstream_calls = calls\<rparr>
             | (Inl err, calls) \<Rightarrow> \<lparr>sent = catch_block err, upstream_calls = calls\<rparr>))"

subsection \<open>Letter case, as the specification speaks of it\<close>

text \<open>
  Two characters are the same letter when they differ in case at most. A text contains
  a phrase in any letter case when, at some position, it goes on with the letters of
  the phrase, each in either case.
\<close>

definition same_letter :: "char \<Rightarrow> char \<Rightarrow> bool" where
  "same_letter c d = (toLowerCase_char c = toLowerCase_char d)"

fun starts_in_any_case :: "string \<Rightarrow> string \<Rightarrow> bool" where
  "starts_in_any_case cs [] = True"
| "starts_in_any_case [] (d # ds) = False"
| "starts_in_any_case (c # cs) (d # ds) = (same_letter c d \<and> starts_in_any_case cs ds)"

fun contains_in_any_case :: "string \<Rightarrow> string \<Rightarrow> bool" where
  "contains_in_any_case [] s = (s = [])"
| "contains_in_any_case (c # cs) s =
     (starts_in_any_case (c # cs) s \<or> contains_in_any_case cs s)"

subsection \<open>Concrete surroundings\<close>

text \<open>
  The TypeError texts of V8, a service that answers every prompt with the same text, a
  service that fails every call with an error of the given message, a service that
  throws the given exception on every call, and the request body
  \<^verbatim>\<open>{"prompt": "hello"}\<close>.
\<close>

definition V8 :: engine where
  "V8 = \<lparr>null_property_message = ''Cannot read properties of null (reading 'prompt')'',
          to_primitive_message = ''Cannot convert object to primitive value''\<rparr>"

definition healthy_service :: generative_service where
  "healthy_service k m p = Inr ''hi there''"

definition failing_service :: "string \<Rightarrow> generative_service" where
  "failing_service msg k m p = Inl \<lparr>instanceof_SyntaxError = False, message = msg\<rparr>"

definition throwing_service :: "js_error \<Rightarrow> generative_service" where
  "throwing_service e k m p = Inl e"

definition hello_request :: "js_error + json" where
  "hello_request = Inr (JObject [(''prompt'', JString ''hello'')])"

section \<open>Properties of the building blocks\<close>

subsection \<open>Searching a lowered text is searching in any letter case\<close>

lemma startsWith_prefix: "startsWith m s = prefix s m"
  by (induction m s rule: startsWith.induct) auto

text \<open>\<open>str_includes\<close> is the contiguous-sublist relation of the library.\<close>

lemma str_includes_sublist: "str_includes m s = sublist s m"
  by (induction m) (simp_all add: startsWith_prefix sublist_Cons_right)

lemma lowercase_phrases:
  "toLowerCase ''api key not valid'' = ''api key not valid''"
  "toLowerCase ''quota'' = ''quota''"
  "toLowerCase ''model not found'' = ''model not found''"
  by (simp_all add: toLowerCase_def toLowerCase_char_def uppercase_letters_def
      lowercase_letters_def)

lemma startsWith_lowered:
  "startsWith (toLowerCase m) (toLowerCase s) = starts_in_any_case m s"
  by (induction m s rule: starts_in_any_case.induct)
    (simp_all add: toLowerCase_def same_letter_def)

lemma includes_lowered:
  "str_includes (toLowerCase m) (toLowerCase s) = contains_in_any_case m s"
proof (induction m)
  case Nil
  show ?case by (simp add: toLowerCase_def)
next
  case (Cons c cs)
  have "startsWith (toLowerCase (c # cs)) (toLowerCase s) = starts_in_any_case (c # cs) s"
    by (rule startsWith_lowered)
  with Cons show ?case by (simp add: toLowerCase_def)
qed

text \<open>
  One test of the \<^verbatim>\<open>else if\<close> chain, \<^verbatim>\<open>error.message && error.message.toLowerCase().includes(s)\<close>,
  for a lower-case phrase \<open>s\<close>.
\<close>

lemma row_test:
  assumes "s \<noteq> []" and "toLowerCase s = s"
  shows "(m \<noteq> [] \<and> str_includes (toLowerCase m) s) = contains_in_any_case m s"
proof -
  have "str_includes (toLowerCase m) s = contains_in_any_case m s"
    using includes_lowered [of m s] assms(2) by simp
  moreover have "\<not> contains_in_any_case [] s"
    using assms(1) by simp
  ultimately show ?thesis by auto
qed

subsection \<open>The catch block as a table\<close>

lemma catch_block_rows:
  "catch_block err =
     (if contains_in_any_case (message err) ''api key not valid'' then
        \<lparr>status = 401,
         body = [(''error'', ''Gemini API Key is not valid. Please check your .env.local file and ensure it's correct.''),
                 (''details'', ''See server logs for more information.'')]\<rparr>
      else if contains_in_any_case (message err) ''quota'' then
        \<lparr>status = 429,
         body = [(''error'', ''API quota exceeded. Please check your Google Cloud console.''),
                 (''details'', ''See server logs for more information.'')]\<rparr>
      else if contains_in_any_case (message err) ''model not found'' then
        \<lparr>status = 404,
         body = [(''error'', ''The specified AI model was not found. Check the model name.''),
                 (''details'', ''See server logs for more information.'')]\<rparr>
      else if instanceof_SyntaxError err \<and> str_includes (message err) ''JSON'' then
        \<lparr>status = 400,
         body = [(''error'', ''Invalid JSON in request body.''),
                 (''details'', ''See server logs for more information.'')]\<rparr>
      else
        \<lparr>status = 500,
         body = [(''error'', if message err = [] then ''Failed to get response from AI.''
                            else message err),
                 (''details'', ''See server logs for more information.'')]\<rparr>)"
proof -
  have a: "(message err \<noteq> [] \<and> str_includes (toLowerCase (message err)) ''api key not valid'')
      = contains_in_any_case (message err) ''api key not valid''"
    by (rule row_test) (simp_all add: lowercase_phrases)
  have q: "(message err \<noteq> [] \<and> str_includes (toLowerCase (message err)) ''quota'')
      = contains_in_any_case (message err) ''quota''"
    by (rule row_test) (simp_all add: lowercase_phrases)
  have n: "(message err \<noteq> [] \<and> str_includes (toLowerCase (message err)) ''model not found'')
      = contains_in_any_case (message err) ''model not found''"
    by (rule row_test) (simp_all add: lowercase_phrases)
  show ?thesis
    unfolding catch_block_def a q n by (simp add: Let_def)
qed

lemma catch_block_body:
  "\<exists>m. body (catch_block err) =
     [(''error'', m), (''details'', ''See server logs for more information.'')]"
  by (simp add: catch_block_rows)

subsection \<open>The handler around the try block\<close>

lemma POST_catches:
  "k \<noteq> [] \<Longrightarrow> try_block eng svc k req = (Inl err, calls) \<Longrightarrow>
     POST eng svc (Some k) req = \<lparr>sent = catch_block err, upstream_calls = calls\<rparr>"
  by (simp add: POST_def)

lemma POST_returns:
  "k \<noteq> [] \<Longrightarrow> try_block eng svc k req = (Inr r, calls) \<Longrightarrow>
     POST eng svc (Some k) req = \<lparr>sent = r, upstream_calls = calls\<rparr>"
  by (simp add: POST_def)

lemma try_block_no_prompt:
  "get_prompt eng b = Inr p \<Longrightarrow> \<not> truthy p \<Longrightarrow>
     try_block eng svc k (Inr b) = (Inr no_prompt_response, [])"
  by (cases p) (simp_all add: try_block_def)

text \<open>
  The try block returns a response in two places only: the missing-prompt response, when
  the prompt could be read and is falsy, and the reply with status 200.
\<close>

lemma try_block_returns:
  assumes "try_block eng svc k req = (Inr r, calls)"
  shows "status r = 200 \<or>
     (r = no_prompt_response \<and> (\<exists>b p. req = Inr b \<and> get_prompt eng b = Inr p \<and> \<not> truthy p))"
  using assms
  by (auto simp: try_block_def Let_def split: sum.splits option.splits if_splits)

text \<open>
  Whenever the prompt can be read and is missing or falsy, the handler answers 400
  without calling the service.
\<close>

lemma missing_prompt_400:
  "k \<noteq> [] \<Longrightarrow> get_prompt eng b = Inr p \<Longrightarrow> \<not> truthy p \<Longrightarrow>
     POST eng svc (Some k) (Inr b) = \<lparr>sent = no_prompt_response, upstream_calls = []\<rparr>"
  by (simp add: POST_returns try_block_no_prompt)

text \<open>
  The body \<^verbatim>\<open>null\<close> is the one parsed body whose prompt cannot be read: whatever text the
  engine gives its TypeError, the status is not 400, since the error is no SyntaxError.
\<close>

lemma null_body_never_400:
  "status (sent (POST eng svc key (Inr JNull))) \<noteq> 400"
  by (cases key)
    (simp_all add: POST_def not_configured_response_def try_block_def TypeError_def
      catch_block_rows)

text \<open>
  The default of the catch block: an exception that passes none of the four tests of
  the chain is answered with status 500 and its own message, or the fallback text when
  its message is empty.
\<close>

lemma default_row_500:
  assumes "k \<noteq> []" and "try_block eng svc k req = (Inl err, calls)"
    and "\<not> contains_in_any_case (message err) ''api key not valid''"
    and "\<not> contains_in_any_case (message err) ''quota''"
    and "\<not> contains_in_any_case (message err) ''model not found''"
    and "\<not> (instanceof_SyntaxError err \<and> str_includes (message err) ''JSON'')"
  shows "sent (POST eng svc (Some k) req) =
     \<lparr>status = 500,
      body = [(''error'', if message err = [] then ''Failed to get response from AI.''
                         else message err),
              (''details'', ''See server logs for more information.'')]\<rparr>"
  using assms by (simp add: POST_catches catch_block_rows)

section \<open>The claims\<close>

subsection \<open>C1: the fields of an error body\<close>

text \<open>
  C1 says that every non-200 response carries a \<^verbatim>\<open>details\<close> field beside \<^verbatim>\<open>error\<close>,
  the missing-configuration 500 and the missing-prompt 400 included. Lines 12 and 24
  build those two bodies with \<^verbatim>\<open>error\<close> alone: with the credential unset the status is
  500 and there is no \<^verbatim>\<open>details\<close>, and for the body \<^verbatim>\<open>{}\<close> the status is 400 and there
  is no \<^verbatim>\<open>details\<close>.
\<close>

theorem details_absent_counterexample:
  "status (sent (POST V8 healthy_service None (Inr (JObject [(''prompt'', JString ''hello'')])))) = 500
   \<and> map_of (body (sent (POST V8 healthy_service None
          (Inr (JObject [(''prompt'', JString ''hello'')]))))) ''details'' = None
   \<and> status (sent (POST V8 healthy_service (Some ''key'') (Inr (JObject [])))) = 400
   \<and> map_of (body (sent (POST V8 healthy_service (Some ''key'') (Inr (JObject []))))) ''details''
       = None"
  by code_simp

text \<open>
  C1 as amended: every non-200 response has an \<^verbatim>\<open>error\<close> string in its body. The body is
  that field alone when the credential is missing or when the prompt was read and is
  missing or falsy; in every other case (the response of the catch block) it is
  \<^verbatim>\<open>error\<close> followed by \<^verbatim>\<open>details\<close> with the text pointing to the server logs.
\<close>

theorem error_body_fields:
  assumes "status (sent (POST eng svc key req)) \<noteq> 200"
  shows "\<exists>m. body (sent (POST eng svc key req)) =
     (if key = None \<or> key = Some [] \<or>
         (\<exists>b p. req = Inr b \<and> get_prompt eng b = Inr p \<and> \<not> truthy p)
      then [(''error'', m)]
      else [(''error'', m), (''details'', ''See server logs for more information.'')])"
proof -
  let ?early = "key = None \<or> key = Some [] \<or>
         (\<exists>b p. req = Inr b \<and> get_prompt eng b = Inr p \<and> \<not> truthy p)"
  let ?body = "body (sent (POST eng svc key req))"
  have early: "?early \<Longrightarrow> \<exists>m. ?body = [(''error'', m)]"
  proof -
    assume e: ?early
    show "\<exists>m. ?body = [(''error'', m)]"
    proof (cases "key = None \<or> key = Some []")
      case True
      then have "sent (POST eng svc key req) = not_configured_response"
        by (auto simp: POST_def)
      then show ?thesis by (simp add: not_configured_response_def)
    next
      case False
      then obtain k where k: "key = Some k" "k \<noteq> []"
        by (cases key) auto
      from e False obtain b p where "req = Inr b" "get_prompt eng b = Inr p" "\<not> truthy p"
        by blast
      then have "POST eng svc key req = \<lparr>sent = no_prompt_response, upstream_calls = []\<rparr>"
        using k by (simp add: missing_prompt_400)
      then show ?thesis by (simp add: no_prompt_response_def)
    qed
  qed
  have late: "\<not> ?early \<Longrightarrow>
      \<exists>m. ?body = [(''error'', m), (''details'', ''See server logs for more information.'')]"
  proof -
    assume ne: "\<not> ?early"
    then obtain k where k: "key = Some k" "k \<noteq> []"
      by (cases key) auto
    obtain res calls where tb: "try_block eng svc k req = (res, calls)"
      by (cases "try_block eng svc k req")
    show "\<exists>m. ?body = [(''error'', m), (''details'', ''See server logs for more information.'')]"
    proof (cases res)
      case (Inl err)
      then have "sent (POST eng svc key req) = catch_block err"
        using k tb by (simp add: POST_catches)
      then show ?thesis
        using catch_block_body [of err] by simp
    next
      case (Inr r)
      then have sent_r: "sent (POST eng svc key req) = r"
        using k tb by (simp add: POST_returns)
      with assms have "status r \<noteq> 200" by simp
      moreover have "try_block eng svc k req = (Inr r, calls)"
        using tb Inr by simp
      ultimately have "\<exists>b p. req = Inr b \<and> get_prompt eng b = Inr p \<and> \<not> truthy p"
        using try_block_returns [of eng svc k req r calls] by blast
      with ne show ?thesis by blast
    qed
  qed
  show ?thesis
  proof (cases ?early)
    case True
    from early [OF True] obtain m where "?body = [(''error'', m)]" ..
    with True show ?thesis
      by (intro exI [of _ m]) (simp only: if_True)
  next
    case False
    from late [OF False] obtain m where
      "?body = [(''error'', m), (''details'', ''See server logs for more information.'')]" ..
    with False show ?thesis
      by (intro exI [of _ m]) (simp only: if_False)
  qed
qed

theorem error_body_fields_witness:
  "status (sent (POST V8 (failing_service ''fetch failed'') (Some ''key'') hello_request)) \<noteq> 200
   \<and> (\<exists>m. body (sent (POST V8 (failing_service ''fetch failed'') (Some ''key'') hello_request)) =
         [(''error'', m), (''details'', ''See server logs for more information.'')])"
proof -
  have h: "status (sent (POST V8 (failing_service ''fetch failed'') (Some ''key'') hello_request))
      \<noteq> 200"
    by code_simp
  have late: "\<not> (Some ''key'' = None \<or> Some ''key'' = Some [] \<or>
      (\<exists>b p. hello_request = Inr b \<and> get_prompt V8 b = Inr p \<and> \<not> truthy p))"
    by (auto simp: hello_request_def)
  from error_body_fields [OF h] obtain m where
    "body (sent (POST V8 (failing_service ''fetch failed'') (Some ''key'') hello_request)) =
       (if Some ''key'' = None \<or> Some ''key'' = Some [] \<or>
           (\<exists>b p. hello_request = Inr b \<and> get_prompt V8 b = Inr p \<and> \<not> truthy p)
        then [(''error'', m)]
        else [(''error'', m), (''details'', ''See server logs for more information.'')])" ..
  with late have
    "body (sent (POST V8 (failing_service ''fetch failed'') (Some ''key'') hello_request)) =
       [(''error'', m), (''details'', ''See server logs for more information.'')]"
    by (simp only: if_False)
  with h show ?thesis by blast
qed

subsection \<open>C2: a missing prompt\<close>

text \<open>
  C2 says that a parsed body without a \<^verbatim>\<open>prompt\<close> field, or with a falsy one, is answered
  with status 400 and no call to the service. The body \<^verbatim>\<open>null\<close> has no \<^verbatim>\<open>prompt\<close> field,
  yet reading \<^verbatim>\<open>reqBody.prompt\<close> throws before the check of line 22 is reached, and the
  catch block answers 500 with the text of the TypeError.
\<close>

theorem null_body_500:
  "POST V8 healthy_service (Some ''key'') (Inr JNull) =
     \<lparr>sent = \<lparr>status = 500,
              body = [(''error'', ''Cannot read properties of null (reading 'prompt')''),
                      (''details'', ''See server logs for more information.'')]\<rparr>,
      upstream_calls = []\<rparr>"
  by code_simp

subsection \<open>C3: a missing credential\<close>

text \<open>
  C3: when the credential is absent from the environment, the handler answers status 500
  with an error body that reports the missing configuration, and the service is not
  called, whatever the request is (a body that does not parse, a valid prompt).
\<close>

theorem credential_absent_500:
  "POST eng svc None req =
     \<lparr>sent = \<lparr>status = 500,
              body = [(''error'', ''AI service not configured. API Key missing.'')]\<rparr>,
      upstream_calls = []\<rparr>"
  by (simp add: POST_def not_configured_response_def)

theorem credential_absent_500_witness:
  "POST V8 healthy_service None hello_request =
     \<lparr>sent = \<lparr>status = 500,
              body = [(''error'', ''AI service not configured. API Key missing.'')]\<rparr>,
      upstream_calls = []\<rparr>"
  by (rule credential_absent_500)

subsection \<open>C4: an invalid API key\<close>

text \<open>
  C4: for every exception the handler catches whose message contains "api key not valid"
  in any letter case, the response has status 401 and the error message is the fixed
  text about the Gemini API key.
\<close>

theorem api_key_not_valid_401:
  assumes "k \<noteq> []" and "try_block eng svc k req = (Inl err, calls)"
    and "contains_in_any_case (message err) ''api key not valid''"
  shows "sent (POST eng svc (Some k) req) =
     \<lparr>status = 401,
      body = [(''error'', ''Gemini API Key is not valid. Please check your .env.local file and ensure it's correct.''),
              (''details'', ''See server logs for more information.'')]\<rparr>"
  using assms by (simp add: POST_catches catch_block_rows)

theorem api_key_not_valid_401_witness:
  "sent (POST V8 (failing_service ''[400 Bad Request] API Key Not Valid. Please pass a valid API key.'')
      (Some ''key'') hello_request) =
     \<lparr>status = 401,
      body = [(''error'', ''Gemini API Key is not valid. Please check your .env.local file and ensure it's correct.''),
              (''details'', ''See server logs for more information.'')]\<rparr>"
proof -
  let ?msg = "''[400 Bad Request] API Key Not Valid. Please pass a valid API key.''"
  let ?err = "\<lparr>instanceof_SyntaxError = False, message = ?msg\<rparr>"
  have h1: "''key'' \<noteq> []" by simp
  have h2: "try_block V8 (failing_service ?msg) ''key'' hello_request =
      (Inl ?err, [\<lparr>api_key = ''key'', model_name = ''gemini-pro'', contents = JString ''hello''\<rparr>])"
    by (simp add: try_block_def hello_request_def failing_service_def)
  have h3: "contains_in_any_case (message ?err) ''api key not valid''"
    by code_simp
  show ?thesis
    by (rule api_key_not_valid_401 [OF h1 h2 h3])
qed

subsection \<open>C5: an exceeded quota\<close>

text \<open>
  C5: for every exception the handler catches whose message contains "quota" in any
  letter case and does not contain "api key not valid", the response has status 429 and
  the fixed message about the quota. Nothing is asked of "model not found": a message
  that contains both "quota" and "model not found" resolves to 429.
\<close>

theorem quota_429:
  assumes "k \<noteq> []" and "try_block eng svc k req = (Inl err, calls)"
    and "contains_in_any_case (message err) ''quota''"
    and "\<not> contains_in_any_case (message err) ''api key not valid''"
  shows "sent (POST eng svc (Some k) req) =
     \<lparr>status = 429,
      body = [(''error'', ''API quota exceeded. Please check your Google Cloud console.''),
              (''details'', ''See server logs for more information.'')]\<rparr>"
  using assms by (simp add: POST_catches catch_block_rows)

theorem quota_429_witness:
  "contains_in_any_case ''Quota exceeded: model not found'' ''model not found''
   \<and> sent (POST V8 (failing_service ''Quota exceeded: model not found'') (Some ''key'')
        hello_request) =
     \<lparr>status = 429,
      body = [(''error'', ''API quota exceeded. Please check your Google Cloud console.''),
              (''details'', ''See server logs for more information.'')]\<rparr>"
proof -
  let ?msg = "''Quota exceeded: model not found''"
  let ?err = "\<lparr>instanceof_SyntaxError = False, message = ?msg\<rparr>"
  have both: "contains_in_any_case ?msg ''model not found''"
    by code_simp
  have h1: "''key'' \<noteq> []" by simp
  have h2: "try_block V8 (failing_service ?msg) ''key'' hello_request =
      (Inl ?err, [\<lparr>api_key = ''key'', model_name = ''gemini-pro'', contents = JString ''hello''\<rparr>])"
    by (simp add: try_block_def hello_request_def failing_service_def)
  have h3: "contains_in_any_case (message ?err) ''quota''"
    by code_simp
  have h4: "\<not> contains_in_any_case (message ?err) ''api key not valid''"
    by code_simp
  show ?thesis
    using both quota_429 [OF h1 h2 h3 h4] by simp
qed

subsection \<open>C6: an unknown model\<close>

text \<open>
  C6: for every exception the handler catches whose message contains "model not found"
  in any letter case and matches neither of the two earlier rows, the response has
  status 404 and the fixed message about the model.
\<close>

theorem model_not_found_404:
  assumes "k \<noteq> []" and "try_block eng svc k req = (Inl err, calls)"
    and "contains_in_any_case (message err) ''model not found''"
    and "\<not> contains_in_any_case (message err) ''api key not valid''"
    and "\<not> contains_in_any_case (message err) ''quota''"
  shows "sent (POST eng svc (Some k) req) =
     \<lparr>status = 404,
      body = [(''error'', ''The specified AI model was not found. Check the model name.''),
              (''details'', ''See server logs for more information.'')]\<rparr>"
  using assms by (simp add: POST_catches catch_block_rows)

theorem model_not_found_404_witness:
  "sent (POST V8 (failing_service ''Model Not Found: gemini-pro'') (Some ''key'') hello_request) =
     \<lparr>status = 404,
      body = [(''error'', ''The specified AI model was not found. Check the model name.''),
              (''details'', ''See server logs for more information.'')]\<rparr>"
proof -
  let ?msg = "''Model Not Found: gemini-pro''"
  let ?err = "\<lparr>instanceof_SyntaxError = False, message = ?msg\<rparr>"
  have h1: "''key'' \<noteq> []" by simp
  have h2: "try_block V8 (failing_service ?msg) ''key'' hello_request =
      (Inl ?err, [\<lparr>api_key = ''key'', model_name = ''gemini-pro'', contents = JString ''hello''\<rparr>])"
    by (simp add: try_block_def hello_request_def failing_service_def)
  have h3: "contains_in_any_case (message ?err) ''model not found''"
    by code_simp
  have h4: "\<not> contains_in_any_case (message ?err) ''api key not valid''"
    by code_simp
  have h5: "\<not> contains_in_any_case (message ?err) ''quota''"
    by code_simp
  show ?thesis
    by (rule model_not_found_404 [OF h1 h2 h3 h4 h5])
qed

subsection \<open>C7: a body that is not valid JSON\<close>




subsection \<open>C8: the success path\<close>

text \<open>
  C8: for a well-formed body whose \<^verbatim>\<open>prompt\<close> is a non-empty string, with the credential
  configured, if the service returns the text \<open>t\<close> for that prompt, the handler answers
  status 200 with the body \<^verbatim>\<open>{ reply: t }\<close>, after one call to the service.
\<close>

theorem success_200:
  assumes "k \<noteq> []" and "map_of kvs ''prompt'' = Some (JString p)" and "p \<noteq> []"
    and "svc k ''gemini-pro'' (JString p) = Inr t"
  shows "POST eng svc (Some k) (Inr (JObject kvs)) =
     \<lparr>sent = \<lparr>status = 200, body = [(''reply'', t)]\<rparr>,
      upstream_calls = [\<lparr>api_key = k, model_name = ''gemini-pro'', contents = JString p\<rparr>]\<rparr>"
  using assms by (simp add: POST_def try_block_def)

theorem success_200_witness:
  "POST V8 healthy_service (Some ''key'') (Inr (JObject [(''prompt'', JString ''hello'')])) =
     \<lparr>sent = \<lparr>status = 200, body = [(''reply'', ''hi there'')]\<rparr>,
      upstream_calls = [\<lparr>api_key = ''key'', model_name = ''gemini-pro'',
                         contents = JString ''hello''\<rparr>]\<rparr>"
proof -
  have h1: "''key'' \<noteq> []" by simp
  have h2: "map_of [(''prompt'', JString ''hello'')] ''prompt'' = Some (JString ''hello'')" by simp
  have h3: "''hello'' \<noteq> []" by simp
  have h4: "healthy_service ''key'' ''gemini-pro'' (JString ''hello'') = Inr ''hi there''"
    by (simp add: healthy_service_def)
  show ?thesis
    by (rule success_200 [where svc = healthy_service, OF h1 h2 h3 h4])
qed

subsection \<open>C9: the default row\<close>

text \<open>
  C9 says that an exception matching none of the rows of the table is answered with
  status 500 and its own message. The fourth row of the table is a failure to parse the
  request body, and line 64 tests for it by the class and the message of the exception
  alone. With the body \<^verbatim>\<open>{"prompt": "hello"}\<close> parsed and the service called, a
  SyntaxError thrown by the service whose message mentions "JSON" (the client reading a
  reply that is not JSON) contains none of the three phrases and is no failure of the
  request body; the handler answers it with status 400 and "Invalid JSON in request
  body.", not with 500 and the message of the exception.
\<close>

theorem upstream_syntax_error_400:
  \<open>try_block V8
      (throwing_service (SyntaxError ''Unexpected token '<', "<!DOCTYPE "... is not valid JSON''))
      ''key'' hello_request =
     (Inl (SyntaxError ''Unexpected token '<', "<!DOCTYPE "... is not valid JSON''),
      [\<lparr>api_key = ''key'', model_name = ''gemini-pro'', contents = JString ''hello''\<rparr>])
   \<and> \<not> contains_in_any_case ''Unexpected token '<', "<!DOCTYPE "... is not valid JSON''
         ''api key not valid''
   \<and> \<not> contains_in_any_case ''Unexpected token '<', "<!DOCTYPE "... is not valid JSON''
         ''quota''
   \<and> \<not> contains_in_any_case ''Unexpected token '<', "<!DOCTYPE "... is not valid JSON''
         ''model not found''
   \<and> POST V8
      (throwing_service (SyntaxError ''Unexpected token '<', "<!DOCTYPE "... is not valid JSON''))
      (Some ''key'') hello_request =
     \<lparr>sent = \<lparr>status = 400,
              body = [(''error'', ''Invalid JSON in request body.''),
                      (''details'', ''See server logs for more information.'')]\<rparr>,
      upstream_calls =
        [\<lparr>api_key = ''key'', model_name = ''gemini-pro'', contents = JString ''hello''\<rparr>]\<rparr>\<close>
  by code_simp

subsection \<open>C10: the guard of the JSON row\<close>

text \<open>
  C10: when \<^verbatim>\<open>request.json()\<close> throws, the status is 400 only if the exception is a
  SyntaxError whose message contains "JSON" (case-sensitively); and such an exception
  whose message lacks "JSON" and matches no earlier row is answered with status 500 and
  the raw message of the exception. The exception of a failed parse carries the message
  of the parser, which is not empty.
\<close>

theorem json_guard:
  assumes "k \<noteq> []"
  shows "(status (sent (POST eng svc (Some k) (Inl err))) = 400 \<longrightarrow>
            instanceof_SyntaxError err \<and> str_includes (message err) ''JSON'')
    \<and> (message err \<noteq> []
        \<and> \<not> str_includes (message err) ''JSON''
        \<and> \<not> contains_in_any_case (message err) ''api key not valid''
        \<and> \<not> contains_in_any_case (message err) ''quota''
        \<and> \<not> contains_in_any_case (message err) ''model not found'' \<longrightarrow>
          POST eng svc (Some k) (Inl err) =
            \<lparr>sent = \<lparr>status = 500,
                     body = [(''error'', message err),
                             (''details'', ''See server logs for more information.'')]\<rparr>,
             upstream_calls = []\<rparr>)"
  using assms by (simp add: POST_def try_block_def catch_block_rows)

theorem json_guard_witness:
  "status (sent (POST V8 healthy_service (Some ''key'')
      (Inl (SyntaxError ''Unexpected end of JSON input'')))) = 400
   \<and> instanceof_SyntaxError (SyntaxError ''Unexpected end of JSON input'')
   \<and> str_includes (message (SyntaxError ''Unexpected end of JSON input'')) ''JSON''
   \<and> message (SyntaxError ''Unexpected end of input'') \<noteq> []
   \<and> \<not> str_includes (message (SyntaxError ''Unexpected end of input'')) ''JSON''
   \<and> POST V8 healthy_service (Some ''key'') (Inl (SyntaxError ''Unexpected end of input'')) =
       \<lparr>sent = \<lparr>status = 500,
                body = [(''error'', ''Unexpected end of input''),
                        (''details'', ''See server logs for more information.'')]\<rparr>,
        upstream_calls = []\<rparr>"
proof -
  let ?e1 = "SyntaxError ''Unexpected end of JSON input''"
  let ?e2 = "SyntaxError ''Unexpected end of input''"
  have h1: "''key'' \<noteq> []" by simp
  have s400: "status (sent (POST V8 healthy_service (Some ''key'') (Inl ?e1))) = 400"
    by code_simp
  have m2: "message ?e2 = ''Unexpected end of input''" by (simp add: SyntaxError_def)
  have a0: "message ?e2 \<noteq> []" by (simp add: m2)
  have a1: "\<not> str_includes (message ?e2) ''JSON''" by code_simp
  have a2: "\<not> contains_in_any_case (message ?e2) ''api key not valid''" by code_simp
  have a3: "\<not> contains_in_any_case (message ?e2) ''quota''" by code_simp
  have a4: "\<not> contains_in_any_case (message ?e2) ''model not found''" by code_simp
  from json_guard [OF h1, of V8 healthy_service ?e1] s400
  have p1: "instanceof_SyntaxError ?e1 \<and> str_includes (message ?e1) ''JSON''"
    by blast
  from json_guard [OF h1, of V8 healthy_service ?e2] a0 a1 a2 a3 a4
  have p2: "POST V8 healthy_service (Some ''key'') (Inl ?e2) =
       \<lparr>sent = \<lparr>status = 500,
                body = [(''error'', message ?e2),
                        (''details'', ''See server logs for more information.'')]\<rparr>,
        upstream_calls = []\<rparr>"
    by blast
  show ?thesis
    using s400 p1 a0 a1 p2 by (simp add: m2)
qed

end
